theory Spec2Isabelle
  imports Complex_Main "HOL-Library.Word" "HOL-Library.Char_ord" "HOL-Library.List_Lexorder"
    "HOL-Library.Multiset"
begin

unbundle bit_operations_syntax

section \<open>Python values and errors\<close>

text \<open>
  The enrichment pipeline (\<^verbatim>\<open>02_data_preparation/enrichment_pipeline.py\<close>) passes
  dynamically typed values around: an evidence bag is a \<^verbatim>\<open>Dict[str, Any]\<close>. The
  scalar values that reach it are \<^verbatim>\<open>None\<close>, booleans, integers, floats and strings.
  Floats are modelled by the rational number they denote (no NaN, no infinity); strings are
  the list of their bytes, so that text functions are exact on ASCII text.
  Every exception the modelled code can raise is a value of \<open>py_error\<close>.
\<close>

datatype pyval = PNone | PBool bool | PInt int | PFloat rat | PStr string

datatype py_error =
    TypeError | ValueError | AttributeError | KeyError | IndexError | UnicodeDecodeError
  | OSError | RecursionError

type_synonym evidence = "string \<Rightarrow> pyval option"

text \<open>Python truthiness, as \<^verbatim>\<open>if x:\<close> evaluates it.\<close>

fun truthy :: "pyval \<Rightarrow> bool" where
  "truthy PNone = False"
| "truthy (PBool b) = b"
| "truthy (PInt n) = (n \<noteq> 0)"
| "truthy (PFloat q) = (q \<noteq> 0)"
| "truthy (PStr s) = (s \<noteq> [])"

text \<open>\<^verbatim>\<open>d.get(k)\<close> and \<^verbatim>\<open>d.get(k, default)\<close>.\<close>

definition ev_get :: "evidence \<Rightarrow> string \<Rightarrow> pyval" where
  "ev_get ev k = (case ev k of None \<Rightarrow> PNone | Some v \<Rightarrow> v)"

definition ev_get_default :: "evidence \<Rightarrow> string \<Rightarrow> pyval \<Rightarrow> pyval" where
  "ev_get_default ev k d = (case ev k of None \<Rightarrow> d | Some v \<Rightarrow> v)"

text \<open>
  \<^verbatim>\<open>x >= n\<close> for an integer literal \<open>n\<close>: defined on numbers (a boolean counts as 0 or 1),
  a \<^verbatim>\<open>TypeError\<close> on \<^verbatim>\<open>None\<close> and on strings.
\<close>

fun py_ge :: "pyval \<Rightarrow> int \<Rightarrow> py_error + bool" where
  "py_ge (PBool b) n = Inr (n \<le> (if b then 1 else 0))"
| "py_ge (PInt m) n = Inr (n \<le> m)"
| "py_ge (PFloat q) n = Inr (of_int n \<le> q)"
| "py_ge PNone n = Inl TypeError"
| "py_ge (PStr s) n = Inl TypeError"

subsection \<open>Formatting with one decimal\<close>

definition digit_char :: "nat \<Rightarrow> char" where
  "digit_char d = ''0123456789'' ! (d mod 10)"

fun show_nat :: "nat \<Rightarrow> string" where
  "show_nat n = (if n < 10 then [digit_char n] else show_nat (n div 10) @ [digit_char (n mod 10)])"

declare show_nat.simps [simp del]

text \<open>Rounding to the nearest integer, ties to the even one.\<close>

definition round_half_even :: "rat \<Rightarrow> int" where
  "round_half_even q =
     (let f = \<lfloor>q\<rfloor>; d = q - of_int f
      in if d < 1 / 2 then f else if 1 / 2 < d then f + 1 else if even f then f else f + 1)"

text \<open>\<^verbatim>\<open>format(x, ".1f")\<close> of the number denoted by \<open>q\<close>.\<close>

definition format_1f :: "rat \<Rightarrow> string" where
  "format_1f q =
     (let t = nat (round_half_even (\<bar>q\<bar> * 10))
      in (if q < 0 then ''-'' else '''') @ show_nat (t div 10) @ ''.'' @ show_nat (t mod 10))"

fun py_format_1f :: "pyval \<Rightarrow> py_error + string" where
  "py_format_1f (PBool b) = Inr (format_1f (if b then 1 else 0))"
| "py_format_1f (PInt m) = Inr (format_1f (of_int m))"
| "py_format_1f (PFloat q) = Inr (format_1f q)"
| "py_format_1f PNone = Inl TypeError"
| "py_format_1f (PStr s) = Inl ValueError"

section \<open>Adjudication\<close>

text \<open>
  \<^verbatim>\<open>adjudicate_evidence(evidence, channel_name)\<close>: a chain of early returns. The
  walrus tests \<^verbatim>\<open>if (age := evidence.get(k)):\<close> return the stored value itself.
  A conjunction \<^verbatim>\<open>a and b >= n\<close> compares only when \<open>a\<close> is truthy. The note
  \<^verbatim>\<open>"Majority content age-restricted"\<close> is written in the source with the
  non-breaking hyphen U+2011, here its three UTF-8 bytes.
\<close>

type_synonym decision = "pyval \<times> string \<times> string"

definition note_agerestricted :: string where
  "note_agerestricted =
     ''Majority content age'' @ [CHR 0xE2, CHR 0x80, CHR 0x91] @ ''restricted''"

definition adjudicate_evidence :: "evidence \<Rightarrow> string \<Rightarrow> py_error + decision" where
  "adjudicate_evidence ev channel_name =
    (if truthy (ev_get ev ''made_for_kids'') then
       Inr (PInt 3, ''YouTube_madeForKids'', ''Channel flagged Made for Kids in YouTube Data API'')
     else if truthy (ev_get ev ''common_sense_age'') then
       Inr (ev_get ev ''common_sense_age'', ''CommonSenseMedia'', ''CSM recommended age'')
     else if truthy (ev_get ev ''kidsafe'') then
       Inr (PInt 4, ''kidSAFE'', ''Listed as kidSAFE certified'')
     else if truthy (ev_get ev ''yt_agerestricted'') then
       Inr (PInt 18, ''YouTube_AgeRestricted'', note_agerestricted)
     else if truthy (ev_get ev ''video_board_max_age'') then
       Inr (ev_get ev ''video_board_max_age'', ''RegionalBoardMax'',
            ''Max rating across recent uploads'')
     else if truthy (ev_get ev ''is_educational_content'') then
       Inr (PInt 13, ''EducationalContent'', ''Educational/instructional content detected'')
     else if truthy (ev_get ev ''is_explicit_adult_content'') then
       Inr (PInt 18, ''ExplicitContent'', ''Explicit adult content detected'')
     else if truthy (ev_get ev ''is_drama_controversy_heavy'') then
       Inr (PInt 18, ''DramaContent'', ''Heavy drama/controversy content detected'')
     else if truthy (ev_get ev ''is_adult_personality_heavy'') then
       Inr (PInt 18, ''AdultPersonality'', ''Adult lifestyle/personality content detected'')
     else if truthy (ev_get ev ''is_mature_themes_heavy'') then
       Inr (PInt 17, ''MatureThemes'', ''Mature themes (violence, mental health) detected'')
     else if truthy (ev_get ev ''is_mature_gaming_focused'') then
       Inr (PInt 17, ''MatureGaming'', ''Mature gaming content focus detected'')
     else
       let total_adult_score = ev_get_default ev ''total_adult_content_score'' (PInt 0) in
       case py_ge total_adult_score 3 of
         Inl e \<Rightarrow> Inl e
       | Inr True \<Rightarrow>
           (case py_format_1f total_adult_score of
              Inl e \<Rightarrow> Inl e
            | Inr s \<Rightarrow> Inr (PInt 18, ''AdultContentScore'', ''High adult content score: '' @ s))
       | Inr False \<Rightarrow>
           (case (if truthy (ev_get ev ''adult_keywords_detected'')
                  then py_ge (ev_get_default ev ''adult_keyword_frequency'' (PInt 0)) 2
                  else Inr False) of
              Inl e \<Rightarrow> Inl e
            | Inr True \<Rightarrow>
                Inr (PInt 18, ''AdultKeywords'', ''Multiple adult-oriented keywords detected'')
            | Inr False \<Rightarrow>
           (case (if truthy (ev_get ev ''mature_language_detected'')
                  then py_ge (ev_get_default ev ''profanity_frequency'' (PInt 0)) 3
                  else Inr False) of
              Inl e \<Rightarrow> Inl e
            | Inr True \<Rightarrow>
                Inr (PInt 17, ''MatureLanguage'', ''Frequent mature language detected'')
            | Inr False \<Rightarrow>
           (case (if truthy (ev_get ev ''gaming_mature_rating'')
                  then py_ge (ev_get_default ev ''mature_game_count'' (PInt 0)) 3
                  else Inr False) of
              Inl e \<Rightarrow> Inl e
            | Inr True \<Rightarrow>
                Inr (PInt 17, ''MatureGaming'', ''Multiple mature-rated games detected'')
            | Inr False \<Rightarrow>
                Inr (PInt 13, ''Default'', ''Fallback to YouTube minimum age per policy'')))))"

subsection \<open>The documented precedence table\<close>

text \<open>
  The sixteen rules of the specification's precedence table, in the documented order, each
  with its condition and its output. This table follows the specification; the function
  above follows the source. The claims compare the two.
\<close>

datatype rule =
    MadeForKids | ExpertReview | Certification | OfficialRestricted | RegionalBoard
  | Educational | Explicit | Drama | Lifestyle | MatureThemes | MatureGamingFlag
  | CompositeScore | KeywordFrequency | Profanity | GamingCount | DefaultRule


text \<open>A flagged frequency reaches its threshold.\<close>

definition frequent :: "evidence \<Rightarrow> string \<Rightarrow> string \<Rightarrow> int \<Rightarrow> bool" where
  "frequent ev flag freq n =
     (truthy (ev_get ev flag) \<and> py_ge (ev_get_default ev freq (PInt 0)) n = Inr True)"

fun rule_holds :: "rule \<Rightarrow> evidence \<Rightarrow> bool" where
  "rule_holds MadeForKids ev = truthy (ev_get ev ''made_for_kids'')"
| "rule_holds ExpertReview ev = truthy (ev_get ev ''common_sense_age'')"
| "rule_holds Certification ev = truthy (ev_get ev ''kidsafe'')"
| "rule_holds OfficialRestricted ev = truthy (ev_get ev ''yt_agerestricted'')"
| "rule_holds RegionalBoard ev = truthy (ev_get ev ''video_board_max_age'')"
| "rule_holds Educational ev = truthy (ev_get ev ''is_educational_content'')"
| "rule_holds Explicit ev = truthy (ev_get ev ''is_explicit_adult_content'')"
| "rule_holds Drama ev = truthy (ev_get ev ''is_drama_controversy_heavy'')"
| "rule_holds Lifestyle ev = truthy (ev_get ev ''is_adult_personality_heavy'')"
| "rule_holds MatureThemes ev = truthy (ev_get ev ''is_mature_themes_heavy'')"
| "rule_holds MatureGamingFlag ev = truthy (ev_get ev ''is_mature_gaming_focused'')"
| "rule_holds CompositeScore ev =
     (py_ge (ev_get_default ev ''total_adult_content_score'' (PInt 0)) 3 = Inr True)"
| "rule_holds KeywordFrequency ev =
     frequent ev ''adult_keywords_detected'' ''adult_keyword_frequency'' 2"
| "rule_holds Profanity ev = frequent ev ''mature_language_detected'' ''profanity_frequency'' 3"
| "rule_holds GamingCount ev = frequent ev ''gaming_mature_rating'' ''mature_game_count'' 3"
| "rule_holds DefaultRule ev = True"




text \<open>
  The typing of an evidence bag that the comparisons rely on: the composite score and the
  three frequency counts, where present, are numbers.
\<close>

fun numeric :: "pyval \<Rightarrow> bool" where
  "numeric (PBool b) = True"
| "numeric (PInt n) = True"
| "numeric (PFloat q) = True"
| "numeric PNone = False"
| "numeric (PStr s) = False"

definition numeric_at :: "evidence \<Rightarrow> string \<Rightarrow> bool" where
  "numeric_at ev k = (case ev k of None \<Rightarrow> True | Some v \<Rightarrow> numeric v)"

definition numeric_signals :: "evidence \<Rightarrow> bool" where
  "numeric_signals ev =
     (numeric_at ev ''total_adult_content_score'' \<and> numeric_at ev ''adult_keyword_frequency''
      \<and> numeric_at ev ''profanity_frequency'' \<and> numeric_at ev ''mature_game_count'')"

subsection \<open>Properties of the adjudicator\<close>






lemma numeric_signals_empty: "numeric_signals Map.empty"
  by (simp add: numeric_signals_def numeric_at_def)







text \<open>
  Claim C10. A \<^verbatim>\<open>common_sense_age\<close> of 0, and a \<^verbatim>\<open>video_board_max_age\<close> of 0, is
  treated exactly as an absent signal: the rule does not hold, and the result is the result
  on the bag without that entry.
\<close>

theorem zero_age_treated_as_absent:
  "(ev ''common_sense_age'' = Some (PInt 0) \<longrightarrow>
      \<not> rule_holds ExpertReview ev
      \<and> adjudicate_evidence ev cn = adjudicate_evidence (ev(''common_sense_age'' := None)) cn)
   \<and> (ev ''video_board_max_age'' = Some (PInt 0) \<longrightarrow>
      \<not> rule_holds RegionalBoard ev
      \<and> adjudicate_evidence ev cn = adjudicate_evidence (ev(''video_board_max_age'' := None)) cn)"
proof -
  have 1: "adjudicate_evidence ev cn = adjudicate_evidence (ev(''common_sense_age'' := None)) cn"
    if "ev ''common_sense_age'' = Some (PInt 0)"
    using that
    by (simp add: adjudicate_evidence_def ev_get_def ev_get_default_def Let_def
        cong: if_cong sum.case_cong bool.case_cong)
  have 2: "adjudicate_evidence ev cn = adjudicate_evidence (ev(''video_board_max_age'' := None)) cn"
    if "ev ''video_board_max_age'' = Some (PInt 0)"
    using that
    by (simp add: adjudicate_evidence_def ev_get_def ev_get_default_def Let_def
        cong: if_cong sum.case_cong bool.case_cong)
  show ?thesis using 1 2 by (simp add: ev_get_def)
qed

definition bag_zero_ages :: evidence where
  "bag_zero_ages =
     [''common_sense_age'' \<mapsto> PInt 0, ''video_board_max_age'' \<mapsto> PInt 0,
      ''is_educational_content'' \<mapsto> PBool True]"

theorem zero_age_treated_as_absent_witness:
  "bag_zero_ages ''common_sense_age'' = Some (PInt 0)
   \<and> bag_zero_ages ''video_board_max_age'' = Some (PInt 0)
   \<and> adjudicate_evidence bag_zero_ages ''c''
       = adjudicate_evidence (bag_zero_ages(''common_sense_age'' := None)) ''c''
   \<and> adjudicate_evidence bag_zero_ages ''c''
       = adjudicate_evidence (bag_zero_ages(''video_board_max_age'' := None)) ''c''
   \<and> adjudicate_evidence bag_zero_ages ''c''
       = Inr (PInt 13, ''EducationalContent'', ''Educational/instructional content detected'')"
proof -
  have a: "bag_zero_ages ''common_sense_age'' = Some (PInt 0)"
    and b: "bag_zero_ages ''video_board_max_age'' = Some (PInt 0)"
    by (simp_all add: bag_zero_ages_def)
  have v: "adjudicate_evidence bag_zero_ages ''c''
       = Inr (PInt 13, ''EducationalContent'', ''Educational/instructional content detected'')"
    by (simp add: adjudicate_evidence_def ev_get_def bag_zero_ages_def)
  from zero_age_treated_as_absent [of bag_zero_ages "''c''"] a b v show ?thesis by blast
qed

section \<open>Maturity scorer\<close>

text \<open>
  \<^verbatim>\<open>analyze_content_maturity(videos, channel_description)\<close>. Text is lower-cased with
  \<^verbatim>\<open>str.lower()\<close> (here: the ASCII letters), a keyword is counted when
  \<^verbatim>\<open>keyword in text\<close> (substring test), and each \<^verbatim>\<open>for keyword in ...\<close> loop adds its
  weight to a running count. The keyword sets are listed in the order of the source's set
  literals; the loops only add, so the iteration order of a Python set does not matter.
\<close>

definition lower_char :: "char \<Rightarrow> char" where
  "lower_char c =
     (case map_of (zip ''ABCDEFGHIJKLMNOPQRSTUVWXYZ'' ''abcdefghijklmnopqrstuvwxyz'') c of
        None \<Rightarrow> c | Some l \<Rightarrow> l)"

definition py_lower :: "string \<Rightarrow> string" where
  "py_lower s = map lower_char s"

fun starts_with :: "string \<Rightarrow> string \<Rightarrow> bool" where
  "starts_with text [] = True"
| "starts_with [] (k # ks) = False"
| "starts_with (c # cs) (k # ks) = (c = k \<and> starts_with cs ks)"

text \<open>\<^verbatim>\<open>keyword in text\<close>.\<close>

fun py_in :: "string \<Rightarrow> string \<Rightarrow> bool" where
  "py_in kw [] = (kw = [])"
| "py_in kw (c # cs) = (starts_with (c # cs) kw \<or> py_in kw cs)"

text \<open>\<^verbatim>\<open>sep.join(xs)\<close>.\<close>

fun py_join :: "string \<Rightarrow> string list \<Rightarrow> string" where
  "py_join sep [] = []"
| "py_join sep [x] = x"
| "py_join sep (x # y # ys) = x @ sep @ py_join sep (y # ys)"

definition educational_keywords :: "string list" where
  "educational_keywords =
    [''tutorial'', ''learn'', ''education'', ''lesson'', ''course'', ''study'', ''school'',
     ''university'', ''science'', ''history'', ''math'', ''physics'', ''chemistry'', ''biology'',
     ''geography'', ''recipe'', ''cooking'', ''how to'', ''diy'', ''instructions'', ''guide'',
     ''explained'', ''documentary'', ''facts'', ''research'', ''analysis'', ''academic'',
     ''scholarly'']"

definition explicit_adult_keywords :: "string list" where
  "explicit_adult_keywords =
    [''porn'', ''sex'', ''nude'', ''naked'', ''explicit'', ''nsfw'', ''adult only'', ''18+'',
     ''onlyfans'', ''escort'', ''prostitute'', ''stripper'', ''cam girl'', ''xxx'', ''sexy'',
     ''bikini'', ''underwear'', ''lingerie'', ''fetish'', ''erotic'', ''seduction'']"

definition drama_keywords :: "string list" where
  "drama_keywords =
    [''drama'', ''exposed'', ''controversy'', ''scandal'', ''beef'', ''calling out'',
     ''destroyed'', ''roasted'', ''cancelled'', ''toxic'', ''problematic'', ''allegations'',
     ''lawsuit'', ''predator'', ''grooming'', ''harassment'', ''abuse'', ''assault'',
     ''criminal'', ''arrest'', ''court'', ''police'', ''investigation'', ''victim'',
     ''stalking'', ''threatening'']"

definition adult_personality_keywords :: "string list" where
  "adult_personality_keywords =
    [''drunk'', ''drinking'', ''alcohol'', ''party'', ''club'', ''bar'', ''wasted'', ''hangover'',
     ''smoking'', ''vape'', ''weed'', ''drugs'', ''high'', ''stoned'', ''pills'', ''cocaine'',
     ''gambling'', ''casino'', ''bet'', ''poker'', ''strip club'', ''hookup'', ''dating app'',
     ''tinder'', ''bumble'', ''relationship drama'', ''cheating'', ''affair'', ''breakup'']"

definition mature_themes_keywords :: "string list" where
  "mature_themes_keywords =
    [''depression'', ''suicide'', ''self harm'', ''cutting'', ''mental health crisis'',
     ''eating disorder'', ''anorexia'', ''bulimia'', ''addiction'', ''rehab'', ''therapy'',
     ''violence'', ''fight'', ''beating'', ''blood'', ''gore'', ''murder'', ''death'', ''kill'']"

definition mature_gaming_keywords :: "string list" where
  "mature_gaming_keywords =
    [''call of duty'', ''grand theft auto'', ''gta'', ''mortal kombat'', ''resident evil'',
     ''doom'', ''battlefield'', ''dead space'', ''outlast'', ''horror game'', ''rated m'',
     ''mature rating'', ''violent game'', ''shooter'', ''fps'']"

definition profanity_keywords :: "string list" where
  "profanity_keywords =
    [''fuck'', ''shit'', ''damn'', ''hell'', ''ass'', ''bitch'', ''bastard'', ''piss'', ''crap'']"

text \<open>
  One loop \<^verbatim>\<open>for keyword in kws: if keyword in text: count += w\<close>, from the running
  count \<open>acc\<close>.
\<close>

definition count_keywords :: "string list \<Rightarrow> string \<Rightarrow> int \<Rightarrow> int \<Rightarrow> int" where
  "count_keywords kws text w acc = fold (\<lambda>kw c. if py_in kw text then c + w else c) kws acc"

record counts =
  educational_count :: int
  explicit_count :: int
  drama_count :: int
  mature_gaming_count :: int
  profanity_count :: int
  adult_personality_count :: int
  mature_themes_count :: int

definition zero_counts :: counts where
  "zero_counts = \<lparr>educational_count = 0, explicit_count = 0, drama_count = 0,
     mature_gaming_count = 0, profanity_count = 0, adult_personality_count = 0,
     mature_themes_count = 0\<rparr>"

text \<open>
  The loops over the channel description: five of the seven keyword sets, the explicit
  one with weight 3, the others with weight 2.
\<close>

definition scan_channel_text :: "string \<Rightarrow> counts \<Rightarrow> counts" where
  "scan_channel_text channel_text c =
     c\<lparr>educational_count := count_keywords educational_keywords channel_text 2 (educational_count c),
       explicit_count := count_keywords explicit_adult_keywords channel_text 3 (explicit_count c),
       drama_count := count_keywords drama_keywords channel_text 2 (drama_count c),
       adult_personality_count :=
         count_keywords adult_personality_keywords channel_text 2 (adult_personality_count c),
       mature_themes_count :=
         count_keywords mature_themes_keywords channel_text 2 (mature_themes_count c)\<rparr>"

text \<open>
  A video is a dictionary read with \<^verbatim>\<open>video.get("title", "")\<close>,
  \<^verbatim>\<open>video.get("description", "")\<close> and \<^verbatim>\<open>video.get("tags", [])\<close>: an absent key is
  \<open>None\<close>.
\<close>

record video =
  v_title :: "string option"
  v_description :: "string option"
  v_tags :: "string list option"

definition video_text :: "video \<Rightarrow> string" where
  "video_text v =
     (let title = py_lower (case v_title v of None \<Rightarrow> '''' | Some t \<Rightarrow> t);
          description = take 500 (py_lower (case v_description v of None \<Rightarrow> '''' | Some d \<Rightarrow> d));
          tags = py_lower (py_join '' '' (case v_tags v of None \<Rightarrow> [] | Some ts \<Rightarrow> ts))
      in title @ '' '' @ description @ '' '' @ tags)"

text \<open>The body of \<^verbatim>\<open>for video in videos\<close>: all seven keyword sets, weight 1.\<close>

definition scan_video :: "video \<Rightarrow> counts \<Rightarrow> counts" where
  "scan_video v c =
     (let t = video_text v in
      \<lparr>educational_count = count_keywords educational_keywords t 1 (educational_count c),
       explicit_count = count_keywords explicit_adult_keywords t 1 (explicit_count c),
       drama_count = count_keywords drama_keywords t 1 (drama_count c),
       mature_gaming_count = count_keywords mature_gaming_keywords t 1 (mature_gaming_count c),
       profanity_count = count_keywords profanity_keywords t 1 (profanity_count c),
       adult_personality_count =
         count_keywords adult_personality_keywords t 1 (adult_personality_count c),
       mature_themes_count = count_keywords mature_themes_keywords t 1 (mature_themes_count c)\<rparr>)"

definition count_all :: "video list \<Rightarrow> string \<Rightarrow> counts" where
  "count_all videos channel_description =
     fold scan_video videos (scan_channel_text (py_lower channel_description) zero_counts)"

text \<open>
  The returned dictionary. The decimal constants and the composite score are exact
  rationals here (the source computes them in binary floating point).
\<close>

record maturity =
  is_educational_content :: bool
  is_explicit_adult_content :: bool
  is_drama_controversy_heavy :: bool
  is_mature_gaming_focused :: bool
  is_adult_personality_heavy :: bool
  is_mature_themes_heavy :: bool
  mature_language_detected :: bool
  adult_keywords_detected :: bool
  gaming_mature_rating :: bool
  profanity_frequency :: int
  adult_keyword_frequency :: int
  mature_game_count :: int
  educational_score :: int
  drama_score :: int
  adult_personality_score :: int
  mature_themes_score :: int
  total_adult_content_score :: rat

definition analyze_content_maturity :: "video list \<Rightarrow> string \<Rightarrow> maturity" where
  "analyze_content_maturity videos channel_description =
     (let c = count_all videos channel_description;
          video_count = (if videos = [] then 1 else int (length videos));
          adult_content_score =
            of_int (explicit_count c) + of_int (adult_personality_count c) * (1 / 2)
              + of_int (mature_themes_count c) * (7 / 10)
      in \<lparr>is_educational_content =
             (max 3 (of_int video_count * (4 / 10)) \<le> (of_int (educational_count c) :: rat)),
          is_explicit_adult_content = (1 \<le> explicit_count c \<or> 2 \<le> adult_content_score),
          is_drama_controversy_heavy =
             (max 2 (of_int video_count * (3 / 10)) \<le> (of_int (drama_count c) :: rat)),
          is_mature_gaming_focused =
             (max 2 (of_int video_count * (3 / 10)) \<le> (of_int (mature_gaming_count c) :: rat)),
          is_adult_personality_heavy =
             (max 2 (of_int video_count * (2 / 10)) \<le> (of_int (adult_personality_count c) :: rat)),
          is_mature_themes_heavy =
             (max 2 (of_int video_count * (2 / 10)) \<le> (of_int (mature_themes_count c) :: rat)),
          mature_language_detected = (1 \<le> profanity_count c),
          adult_keywords_detected = (1 \<le> explicit_count c \<or> 2 \<le> adult_content_score),
          gaming_mature_rating = (1 \<le> mature_gaming_count c),
          profanity_frequency = profanity_count c,
          adult_keyword_frequency = explicit_count c,
          mature_game_count = mature_gaming_count c,
          educational_score = educational_count c,
          drama_score = drama_count c,
          adult_personality_score = adult_personality_count c,
          mature_themes_score = mature_themes_count c,
          total_adult_content_score = adult_content_score\<rparr>)"

text \<open>The number of keywords of a set that occur in a text.\<close>

definition hits :: "string list \<Rightarrow> string \<Rightarrow> int" where
  "hits kws text = int (length (filter (\<lambda>kw. py_in kw text) kws))"

definition video_hits :: "string list \<Rightarrow> video list \<Rightarrow> int" where
  "video_hits kws videos = sum_list (map (\<lambda>v. hits kws (video_text v)) videos)"

definition add_tags :: "video \<Rightarrow> string list \<Rightarrow> video" where
  "add_tags v extra = v\<lparr>v_tags := Some ((case v_tags v of None \<Rightarrow> [] | Some ts \<Rightarrow> ts) @ extra)\<rparr>"

text \<open>Every category count and the composite score of \<open>m\<close> is at most that of \<open>m'\<close>.\<close>

definition counts_le :: "maturity \<Rightarrow> maturity \<Rightarrow> bool" where
  "counts_le m m' =
     (educational_score m \<le> educational_score m'
      \<and> adult_keyword_frequency m \<le> adult_keyword_frequency m'
      \<and> drama_score m \<le> drama_score m'
      \<and> adult_personality_score m \<le> adult_personality_score m'
      \<and> mature_themes_score m \<le> mature_themes_score m'
      \<and> mature_game_count m \<le> mature_game_count m'
      \<and> profanity_frequency m \<le> profanity_frequency m'
      \<and> total_adult_content_score m \<le> total_adult_content_score m')"

definition video_sexy_adult :: video where
  "video_sexy_adult =
     \<lparr>v_title = Some ''Sexy adult'', v_description = Some ''only'', v_tags = Some []\<rparr>"

subsection \<open>Properties of the scorer\<close>

lemma count_keywords_hits: "count_keywords kws text w acc = acc + w * hits kws text"
  unfolding count_keywords_def hits_def
  by (induction kws arbitrary: acc) (auto simp: algebra_simps)

lemma fold_scan_video:
  "fold scan_video vs c =
     \<lparr>educational_count = educational_count c + video_hits educational_keywords vs,
      explicit_count = explicit_count c + video_hits explicit_adult_keywords vs,
      drama_count = drama_count c + video_hits drama_keywords vs,
      mature_gaming_count = mature_gaming_count c + video_hits mature_gaming_keywords vs,
      profanity_count = profanity_count c + video_hits profanity_keywords vs,
      adult_personality_count = adult_personality_count c + video_hits adult_personality_keywords vs,
      mature_themes_count = mature_themes_count c + video_hits mature_themes_keywords vs\<rparr>"
proof (induction vs arbitrary: c)
  case Nil
  then show ?case by (simp add: video_hits_def)
next
  case (Cons v vs)
  show ?case
    by (simp add: Cons.IH) (simp add: scan_video_def Let_def count_keywords_hits video_hits_def)
qed

lemma count_all_closed:
  "count_all vs d =
     \<lparr>educational_count = 2 * hits educational_keywords (py_lower d) + video_hits educational_keywords vs,
      explicit_count = 3 * hits explicit_adult_keywords (py_lower d) + video_hits explicit_adult_keywords vs,
      drama_count = 2 * hits drama_keywords (py_lower d) + video_hits drama_keywords vs,
      mature_gaming_count = video_hits mature_gaming_keywords vs,
      profanity_count = video_hits profanity_keywords vs,
      adult_personality_count = 2 * hits adult_personality_keywords (py_lower d) + video_hits adult_personality_keywords vs,
      mature_themes_count = 2 * hits mature_themes_keywords (py_lower d) + video_hits mature_themes_keywords vs\<rparr>"
  unfolding count_all_def fold_scan_video
  by (simp add: scan_channel_text_def zero_counts_def count_keywords_hits)

lemma starts_with_iff: "starts_with t k \<longleftrightarrow> (\<exists>s. t = k @ s)"
  by (induction t k rule: starts_with.induct) auto

lemma py_in_iff: "py_in kw t \<longleftrightarrow> (\<exists>p s. t = p @ kw @ s)"
proof (induction t)
  case Nil
  then show ?case by auto
next
  case (Cons c cs)
  show ?case
  proof
    assume "py_in kw (c # cs)"
    then consider "starts_with (c # cs) kw" | "py_in kw cs" by auto
    then show "\<exists>p s. c # cs = p @ kw @ s"
    proof cases
      case 1
      then obtain s where "c # cs = kw @ s" using starts_with_iff by blast
      then have "c # cs = [] @ kw @ s" by simp
      then show ?thesis by blast
    next
      case 2
      then obtain p s where "cs = p @ kw @ s" using Cons.IH by blast
      then have "c # cs = (c # p) @ kw @ s" by simp
      then show ?thesis by blast
    qed
  next
    assume "\<exists>p s. c # cs = p @ kw @ s"
    then obtain p s where e: "c # cs = p @ kw @ s" by blast
    show "py_in kw (c # cs)"
    proof (cases p)
      case Nil
      with e have "starts_with (c # cs) kw" using starts_with_iff by auto
      then show ?thesis by simp
    next
      case (Cons a p')
      with e have "cs = p' @ kw @ s" by simp
      then have "py_in kw cs" using Cons.IH by blast
      then show ?thesis by simp
    qed
  qed
qed

lemma py_in_append: "py_in kw t \<Longrightarrow> py_in kw (t @ x)"
  unfolding py_in_iff by (metis append.assoc)

lemma py_in_prepend: "py_in kw t \<Longrightarrow> py_in kw (x @ t)"
  unfolding py_in_iff by (metis append.assoc)

lemma length_filter_mono:
  "(\<And>x. x \<in> set xs \<Longrightarrow> P x \<Longrightarrow> Q x) \<Longrightarrow> length (filter P xs) \<le> length (filter Q xs)"
  by (induction xs) auto

lemma hits_append: "hits kws t \<le> hits kws (t @ x)"
  unfolding hits_def using length_filter_mono [of kws "\<lambda>kw. py_in kw t" "\<lambda>kw. py_in kw (t @ x)"]
  by (simp add: py_in_append)

lemma hits_nonneg: "0 \<le> hits kws t" by (simp add: hits_def)

lemma py_lower_append: "py_lower (a @ b) = py_lower a @ py_lower b"
  by (simp add: py_lower_def)

lemma py_join_append: "\<exists>s. py_join sep (xs @ ys) = py_join sep xs @ s"
proof (induction sep xs rule: py_join.induct)
  case (1 sep)
  then show ?case by simp
next
  case (2 sep x)
  then show ?case by (cases ys) auto
next
  case (3 sep x y ys)
  then show ?case by auto
qed

lemma video_text_add_tags: "\<exists>s. video_text (add_tags v extra) = video_text v @ s"
proof -
  obtain s where "py_join '' '' ((case v_tags v of None \<Rightarrow> [] | Some ts \<Rightarrow> ts) @ extra)
      = py_join '' '' (case v_tags v of None \<Rightarrow> [] | Some ts \<Rightarrow> ts) @ s"
    using py_join_append by blast
  then show ?thesis
    by (simp add: video_text_def add_tags_def Let_def py_lower_append)
qed

lemma video_hits_append: "video_hits kws (vs @ ws) = video_hits kws vs + video_hits kws ws"
  by (simp add: video_hits_def)

lemma video_hits_Cons: "video_hits kws (v # vs) = hits kws (video_text v) + video_hits kws vs"
  by (simp add: video_hits_def)

lemma video_hits_add_tags:
  "video_hits kws (vs1 @ v # vs2) \<le> video_hits kws (vs1 @ add_tags v extra # vs2)"
proof -
  obtain s where "video_text (add_tags v extra) = video_text v @ s"
    using video_text_add_tags by blast
  then have "hits kws (video_text v) \<le> hits kws (video_text (add_tags v extra))"
    by (simp add: hits_append)
  then show ?thesis by (simp add: video_hits_append video_hits_Cons)
qed

lemma score_mono:
  fixes e a m e' a' m' :: int
  assumes "e \<le> e'" "a \<le> a'" "m \<le> m'"
  shows "(of_int e :: rat) + of_int a * (1 / 2) + of_int m * (7 / 10)
           \<le> of_int e' + of_int a' * (1 / 2) + of_int m' * (7 / 10)"
proof -
  have "(of_int e :: rat) \<le> of_int e'" "(of_int a :: rat) \<le> of_int a'"
       "(of_int m :: rat) \<le> of_int m'"
    using assms by simp_all
  then show ?thesis by simp
qed

lemma analyze_counts_le:
  assumes "educational_count (count_all vs d) \<le> educational_count (count_all vs' d')"
    and "explicit_count (count_all vs d) \<le> explicit_count (count_all vs' d')"
    and "drama_count (count_all vs d) \<le> drama_count (count_all vs' d')"
    and "adult_personality_count (count_all vs d) \<le> adult_personality_count (count_all vs' d')"
    and "mature_themes_count (count_all vs d) \<le> mature_themes_count (count_all vs' d')"
    and "mature_gaming_count (count_all vs d) \<le> mature_gaming_count (count_all vs' d')"
    and "profanity_count (count_all vs d) \<le> profanity_count (count_all vs' d')"
  shows "counts_le (analyze_content_maturity vs d) (analyze_content_maturity vs' d')"
  unfolding counts_le_def analyze_content_maturity_def Let_def
  using assms score_mono [OF assms(2) assms(4) assms(5)] by simp

lemma counts_le_description:
  "counts_le (analyze_content_maturity vs d) (analyze_content_maturity vs (d @ x))"
  by (rule analyze_counts_le) (simp_all add: count_all_closed py_lower_append hits_append)

lemma counts_le_tags:
  "counts_le (analyze_content_maturity (vs1 @ v # vs2) d)
             (analyze_content_maturity (vs1 @ add_tags v extra # vs2) d)"
  by (rule analyze_counts_le) (simp_all add: count_all_closed video_hits_add_tags)




text \<open>
  Claim C9, as the code has it. Appending text to the channel description, and adding
  tags to a video, never decreases any of the seven category counts nor the composite
  score.
\<close>

theorem scorer_monotone_description_tags:
  "counts_le (analyze_content_maturity vs d) (analyze_content_maturity vs (d @ x))
   \<and> counts_le (analyze_content_maturity (vs1 @ v # vs2) d)
                (analyze_content_maturity (vs1 @ add_tags v extra # vs2) d)"
  using counts_le_description counts_le_tags by blast

theorem scorer_monotone_description_tags_witness:
  "counts_le (analyze_content_maturity [video_sexy_adult] ''cooking'')
             (analyze_content_maturity [video_sexy_adult] (''cooking'' @ '' recipe''))
   \<and> counts_le (analyze_content_maturity ([] @ video_sexy_adult # []) ''cooking'')
                (analyze_content_maturity ([] @ add_tags video_sexy_adult [''nsfw''] # []) ''cooking'')"
  using scorer_monotone_description_tags
          [where vs = "[video_sexy_adult]" and d = "''cooking''" and x = "'' recipe''"
             and ?vs1.0 = "[]" and v = video_sexy_adult and ?vs2.0 = "[]" and extra = "[''nsfw'']"]
  by blast

text \<open>
  The claim as stated fails for a title: the video text is title, description and tags
  joined by single spaces, so a keyword with a space in it can match across the end of the
  title, and text appended to the title destroys that match. Appending another
  occurrence of the explicit-adult keyword \<^verbatim>\<open>sexy\<close> to the title lowers the explicit
  count from 3 to 2, and the composite score with it.
\<close>

theorem title_append_counterexample:
  "py_in ''sexy'' (py_lower '' sexy'')
   \<and> ''sexy'' \<in> set explicit_adult_keywords
   \<and> v_title video_sexy_adult = Some ''Sexy adult''
   \<and> adult_keyword_frequency
       (analyze_content_maturity [video_sexy_adult\<lparr>v_title := Some (''Sexy adult'' @ '' sexy'')\<rparr>] [])
     < adult_keyword_frequency (analyze_content_maturity [video_sexy_adult] [])
   \<and> total_adult_content_score
       (analyze_content_maturity [video_sexy_adult\<lparr>v_title := Some (''Sexy adult'' @ '' sexy'')\<rparr>] [])
     < total_adult_content_score (analyze_content_maturity [video_sexy_adult] [])"
  by code_simp

section \<open>Cache keys\<close>

text \<open>
  \<^verbatim>\<open>get_cache_key(endpoint, params)\<close> hashes \<^verbatim>\<open>f"{endpoint}:{json.dumps(params, sort_keys=True)}"\<close>
  with MD5 and returns the hexadecimal digest. A parameter dictionary is the list of its
  items in insertion order (a dictionary has each key once); the values the pipeline passes
  are strings and integers. \<^verbatim>\<open>json.dumps\<close> with \<^verbatim>\<open>sort_keys=True\<close> writes the items
  sorted by key, separated by \<^verbatim>\<open>", "\<close> and \<^verbatim>\<open>": "\<close>. MD5 itself is library code: it is
  a parameter \<open>md5\<close> from the encoded text to the 128-bit digest.
\<close>

datatype param_value = ParamStr string | ParamInt int

type_synonym params = "(string \<times> param_value) list"

definition hex_digit :: "nat \<Rightarrow> char" where
  "hex_digit d = ''0123456789abcdef'' ! (d mod 16)"

text \<open>
  The JSON string escape of \<^verbatim>\<open>json.dumps\<close> (with \<^verbatim>\<open>ensure_ascii\<close>): everything
  outside the printable ASCII range is escaped.
\<close>

definition escape_char :: "char \<Rightarrow> string" where
  "escape_char c =
     (if c = CHR ''\"'' then [CHR 0x5C, CHR ''\"'']
      else if c = CHR 0x5C then [CHR 0x5C, CHR 0x5C]
      else if c = CHR 0x0A then [CHR 0x5C, CHR ''n'']
      else if c = CHR 0x0D then [CHR 0x5C, CHR ''r'']
      else if c = CHR 0x09 then [CHR 0x5C, CHR ''t'']
      else if c = CHR 0x08 then [CHR 0x5C, CHR ''b'']
      else if c = CHR 0x0C then [CHR 0x5C, CHR ''f'']
      else if c < CHR 0x20 \<or> CHR 0x7E < c then
        [CHR 0x5C, CHR ''u'', CHR ''0'', CHR ''0'',
         hex_digit (of_char c div 16), hex_digit (of_char c mod 16)]
      else [c])"

definition dumps_str :: "string \<Rightarrow> string" where
  "dumps_str s = [CHR ''\"''] @ concat (map escape_char s) @ [CHR ''\"'']"

definition show_int :: "int \<Rightarrow> string" where
  "show_int i = (if i < 0 then ''-'' @ show_nat (nat (- i)) else show_nat (nat i))"

fun dumps_value :: "param_value \<Rightarrow> string" where
  "dumps_value (ParamStr s) = dumps_str s"
| "dumps_value (ParamInt i) = show_int i"

definition dumps_item :: "string \<times> param_value \<Rightarrow> string" where
  "dumps_item kv = dumps_str (fst kv) @ '': '' @ dumps_value (snd kv)"

text \<open>\<^verbatim>\<open>json.dumps(params, sort_keys=True)\<close>.\<close>

definition json_dumps_sorted :: "params \<Rightarrow> string" where
  "json_dumps_sorted ps = ''{'' @ py_join '', '' (map dumps_item (sort_key fst ps)) @ ''}''"

text \<open>\<^verbatim>\<open>hexdigest()\<close>: the 32 hexadecimal digits of the digest, most significant first.\<close>

definition hexdigest :: "128 word \<Rightarrow> string" where
  "hexdigest w = map (\<lambda>i. hex_digit (unat (drop_bit (4 * (31 - i)) w AND 15))) [0..<32]"

definition get_cache_key :: "(string \<Rightarrow> 128 word) \<Rightarrow> string \<Rightarrow> params \<Rightarrow> string" where
  "get_cache_key md5 endpoint ps =
     (let param_str = json_dumps_sorted ps;
          cache_input = endpoint @ '':'' @ param_str
      in hexdigest (md5 cache_input))"

section \<open>Response cache\<close>

text \<open>
  The cache directory is a map from cache key to the content of the file
  \<^verbatim>\<open>{cache_key}.json\<close>. What \<^verbatim>\<open>open\<close> and \<^verbatim>\<open>json.load\<close> make of a file is its
  content here: a JSON document (the value it parses to), text that is not JSON
  (\<^verbatim>\<open>JSONDecodeError\<close>), bytes that do not decode as text (\<^verbatim>\<open>UnicodeDecodeError\<close>), or a
  file that exists and cannot be opened (\<^verbatim>\<open>PermissionError\<close>). An object is the list of
  the items of the parsed dictionary. Writing a JSON value with \<^verbatim>\<open>json.dump\<close> and
  reading it back with \<^verbatim>\<open>json.load\<close> gives the value again; the model stores the value.
  Time is the reading of \<^verbatim>\<open>time.time()\<close>, passed in as \<open>now\<close>.
\<close>

datatype json =
    JNull | JBool bool | JNum rat | JStr string | JList "json list" | JObj "(string \<times> json) list"

datatype file_content = Parsed json | NotJson | NotText | Unreadable

record cache =
  files :: "string \<Rightarrow> file_content option"
  CACHE_HITS :: int
  CACHE_MISSES :: int

text \<open>\<^verbatim>\<open>x.get(k, default)\<close>: only a dictionary has the method.\<close>

fun json_get :: "json \<Rightarrow> string \<Rightarrow> json \<Rightarrow> py_error + json" where
  "json_get (JObj kvs) k d = Inr (case map_of kvs k of None \<Rightarrow> d | Some v \<Rightarrow> v)"
| "json_get j k d = Inl AttributeError"

text \<open>The operand of \<^verbatim>\<open>time.time() - cache_time\<close>: a number, or a \<^verbatim>\<open>TypeError\<close>.\<close>

fun json_number :: "json \<Rightarrow> py_error + rat" where
  "json_number (JNum q) = Inr q"
| "json_number (JBool b) = Inr (if b then 1 else 0)"
| "json_number j = Inl TypeError"

text \<open>A returned Python value: \<^verbatim>\<open>None\<close> is \<open>None\<close>.\<close>

definition py_value :: "json \<Rightarrow> json option" where
  "py_value j = (if j = JNull then None else Some j)"

definition cache_miss :: "cache \<Rightarrow> py_error + json option \<times> cache" where
  "cache_miss st = Inr (None, st\<lparr>CACHE_MISSES := CACHE_MISSES st + 1\<rparr>)"

text \<open>
  \<^verbatim>\<open>get_cached_response(cache_key)\<close>. The \<^verbatim>\<open>except\<close> clause catches
  \<^verbatim>\<open>JSONDecodeError\<close>, \<^verbatim>\<open>KeyError\<close> and \<^verbatim>\<open>FileNotFoundError\<close>; any other exception
  leaves the function.
\<close>

definition get_cached_response :: "string \<Rightarrow> rat \<Rightarrow> cache \<Rightarrow> py_error + json option \<times> cache" where
  "get_cached_response cache_key now st =
     (case files st cache_key of
        None \<Rightarrow> cache_miss st
      | Some Unreadable \<Rightarrow> Inl OSError
      | Some NotText \<Rightarrow> Inl UnicodeDecodeError
      | Some NotJson \<Rightarrow> cache_miss st
      | Some (Parsed cached_data) \<Rightarrow>
          (case json_get cached_data ''cached_at'' (JNum 0) of
             Inl e \<Rightarrow> Inl e
           | Inr cache_time \<Rightarrow>
               (case json_number cache_time of
                  Inl e \<Rightarrow> Inl e
                | Inr t \<Rightarrow>
                    if now - t < 86400 then
                      (case json_get cached_data ''response'' JNull of
                         Inl e \<Rightarrow> Inl e
                       | Inr r \<Rightarrow> Inr (py_value r, st\<lparr>CACHE_HITS := CACHE_HITS st + 1\<rparr>))
                    else cache_miss (st\<lparr>files := (files st)(cache_key := None)\<rparr>))))"

text \<open>
  \<^verbatim>\<open>cache_response(cache_key, response)\<close> writes
  \<^verbatim>\<open>{"cached_at": time.time(), "response": response}\<close>. Any exception is caught and logged:
  when the file cannot be opened nothing changes, and when the dump fails midway the
  truncated file is no JSON document.
\<close>

datatype write_outcome = Written | OpenFailed | DumpFailed

definition cache_entry :: "rat \<Rightarrow> (string \<times> json) list \<Rightarrow> json" where
  "cache_entry now response = JObj [(''cached_at'', JNum now), (''response'', JObj response)]"

definition cache_response ::
  "string \<Rightarrow> rat \<Rightarrow> (string \<times> json) list \<Rightarrow> write_outcome \<Rightarrow> cache \<Rightarrow> cache" where
  "cache_response cache_key now response io st =
     (case io of
        Written \<Rightarrow> st\<lparr>files := (files st)(cache_key \<mapsto> Parsed (cache_entry now response))\<rparr>
      | OpenFailed \<Rightarrow> st
      | DumpFailed \<Rightarrow> st\<lparr>files := (files st)(cache_key \<mapsto> NotJson)\<rparr>)"

subsection \<open>Properties of the cache key\<close>

lemma length_hexdigest: "length (hexdigest w) = 32"
  by (simp add: hexdigest_def)

lemma filter_key_single:
  "distinct (map fst xs) \<Longrightarrow> k \<in> set xs \<Longrightarrow> filter (\<lambda>x. fst k = fst x) xs = [k]"
proof (induction xs)
  case Nil
  then show ?case by simp
next
  case (Cons a xs)
  show ?case
  proof (cases "k = a")
    case True
    have "fst a \<notin> fst ` set xs" using Cons.prems(1) by simp
    then have "\<forall>x \<in> set xs. fst x \<noteq> fst a" by (metis imageI)
    then have "filter (\<lambda>x. fst a = fst x) xs = []" by (auto simp: filter_empty_conv)
    with True show ?thesis by simp
  next
    case False
    with Cons.prems have k: "k \<in> set xs" by simp
    moreover have "fst a \<notin> fst ` set xs" using Cons.prems(1) by simp
    ultimately have "fst k \<noteq> fst a" by (metis imageI)
    with Cons k show ?thesis by simp
  qed
qed

lemma sort_key_fst_unique:
  assumes "distinct (map fst p1)" "distinct (map fst p2)" "set p1 = set p2"
  shows "sort_key fst p1 = sort_key fst p2"
proof (rule properties_for_sort_key)
  have d1: "distinct p1" and d2: "distinct p2"
    using assms(1,2) by (auto simp: distinct_map)
  show "mset (sort_key fst p2) = mset p1"
    using d1 d2 assms(3) by (simp add: set_eq_iff_mset_eq_distinct)
  show "sorted (map fst (sort_key fst p2))" by simp
  fix k assume ks: "k \<in> set (sort_key fst p2)"
  then have k2: "k \<in> set p2" by simp
  then have k1: "k \<in> set p1" using assms(3) by simp
  have "distinct (map fst (sort_key fst p2))" using assms(2) by (simp add: distinct_map)
  then have "filter (\<lambda>x. fst k = fst x) (sort_key fst p2) = [k]"
    using ks by (rule filter_key_single)
  moreover have "filter (\<lambda>x. fst k = fst x) p1 = [k]"
    using filter_key_single assms(1) k1 by blast
  ultimately show "filter (\<lambda>x. fst k = fst x) (sort_key fst p2) = filter (\<lambda>x. fst k = fst x) p1"
    by simp
qed


text \<open>
  Claim C4. Two parameter dictionaries with the same items, inserted in any two orders,
  get the same cache key for the same endpoint, and the key has 32 characters. (Equal
  inputs give equal keys because the key is a function of endpoint and parameters alone.)
\<close>

theorem cache_key_order_independent:
  assumes "distinct (map fst p1)" and "distinct (map fst p2)" and "set p1 = set p2"
  shows "get_cache_key md5 endpoint p1 = get_cache_key md5 endpoint p2
         \<and> length (get_cache_key md5 endpoint p1) = 32"
  using sort_key_fst_unique [OF assms]
  by (simp add: get_cache_key_def json_dumps_sorted_def length_hexdigest)

definition search_params :: params where
  "search_params =
     [(''q'', ParamStr ''Some Channel''), (''type'', ParamStr ''channel''),
      (''part'', ParamStr ''snippet''), (''maxResults'', ParamInt 1)]"

definition search_params_reordered :: params where
  "search_params_reordered =
     [(''maxResults'', ParamInt 1), (''part'', ParamStr ''snippet''),
      (''q'', ParamStr ''Some Channel''), (''type'', ParamStr ''channel'')]"

theorem cache_key_order_independent_witness:
  "distinct (map fst search_params) \<and> distinct (map fst search_params_reordered)
   \<and> set search_params = set search_params_reordered
   \<and> search_params \<noteq> search_params_reordered
   \<and> (\<forall>md5. get_cache_key md5 ''search'' search_params
                 = get_cache_key md5 ''search'' search_params_reordered
               \<and> length (get_cache_key md5 ''search'' search_params) = 32)"
proof -
  have a: "distinct (map fst search_params)" and b: "distinct (map fst search_params_reordered)"
    by (simp_all add: search_params_def search_params_reordered_def)
  have c: "set search_params = set search_params_reordered"
    by (auto simp: search_params_def search_params_reordered_def)
  have d: "search_params \<noteq> search_params_reordered"
    by (simp add: search_params_def search_params_reordered_def)
  from cache_key_order_independent [OF a b c] a b c d show ?thesis by blast
qed

subsection \<open>Properties of the cache\<close>

text \<open>
  Claim C3. After \<open>cache_response\<close> has stored a response under a key at time \<open>t\<close>,
  \<open>get_cached_response\<close> with that key at time \<open>now\<close> returns the stored response
  (counting a hit and leaving the files alone) as long as \<open>now - t < 86400\<close>; from
  \<open>now - t = 86400\<close> on it returns \<^verbatim>\<open>None\<close>, counts a miss, and the file is deleted.
\<close>

theorem cache_round_trip:
  "(now - t < 86400 \<longrightarrow>
      get_cached_response key now (cache_response key t response Written st)
        = Inr (Some (JObj response),
               (cache_response key t response Written st)\<lparr>CACHE_HITS := CACHE_HITS st + 1\<rparr>))
   \<and> (86400 \<le> now - t \<longrightarrow>
      get_cached_response key now (cache_response key t response Written st)
        = Inr (None, st\<lparr>files := (files st)(key := None), CACHE_MISSES := CACHE_MISSES st + 1\<rparr>))"
  by (simp add: get_cached_response_def cache_response_def cache_entry_def py_value_def
      cache_miss_def)

definition empty_cache :: cache where
  "empty_cache = \<lparr>files = Map.empty, CACHE_HITS = 0, CACHE_MISSES = 0\<rparr>"

definition search_response :: "(string \<times> json) list" where
  "search_response =
     [(''items'', JList [JObj [(''snippet'', JObj [(''channelId'', JStr ''UC123'')])]])]"

theorem cache_round_trip_witness:
  "(1000086399 :: rat) - 1000000000 < 86400
   \<and> (86400 :: rat) \<le> 1000086400 - 1000000000
   \<and> get_cached_response ''k'' 1000086399
        (cache_response ''k'' 1000000000 search_response Written empty_cache)
       = Inr (Some (JObj search_response),
              \<lparr>files = [''k'' \<mapsto> Parsed (cache_entry 1000000000 search_response)],
               CACHE_HITS = 1, CACHE_MISSES = 0\<rparr>)
   \<and> get_cached_response ''k'' 1000086400
        (cache_response ''k'' 1000000000 search_response Written empty_cache)
       = Inr (None, \<lparr>files = Map.empty, CACHE_HITS = 0, CACHE_MISSES = 1\<rparr>)"
proof -
  have a: "(1000086399 :: rat) - 1000000000 < 86400"
    and b: "(86400 :: rat) \<le> 1000086400 - 1000000000" by simp_all
  from cache_round_trip [of 1000086399 1000000000 "''k''" search_response empty_cache] a
  have 1: "get_cached_response ''k'' 1000086399
        (cache_response ''k'' 1000000000 search_response Written empty_cache)
       = Inr (Some (JObj search_response),
              \<lparr>files = [''k'' \<mapsto> Parsed (cache_entry 1000000000 search_response)],
               CACHE_HITS = 1, CACHE_MISSES = 0\<rparr>)"
    by (simp add: cache_response_def empty_cache_def)
  from cache_round_trip [of 1000086400 1000000000 "''k''" search_response empty_cache] b
  have 2: "get_cached_response ''k'' 1000086400
        (cache_response ''k'' 1000000000 search_response Written empty_cache)
       = Inr (None, \<lparr>files = Map.empty, CACHE_HITS = 0, CACHE_MISSES = 1\<rparr>)"
    by (simp add: empty_cache_def)
  from a b 1 2 show ?thesis by blast
qed

text \<open>
  Claim C7 holds for a file that is not JSON text (the \<^verbatim>\<open>JSONDecodeError\<close> is caught and the
  entry counts as a miss), and fails for the other kinds of bad entry: a JSON document that
  is not an object raises \<^verbatim>\<open>AttributeError\<close> at \<^verbatim>\<open>cached_data.get\<close>, a
  \<^verbatim>\<open>cached_at\<close> that is not a number raises \<^verbatim>\<open>TypeError\<close> at the subtraction, bytes that
  are not text raise \<^verbatim>\<open>UnicodeDecodeError\<close>, and a file that cannot be opened raises
  \<^verbatim>\<open>PermissionError\<close>; none of them is in the \<^verbatim>\<open>except\<close> clause.
\<close>

theorem corrupt_entry_raises:
  "get_cached_response ''k'' 1000 (empty_cache\<lparr>files := [''k'' \<mapsto> Parsed (JList [])]\<rparr>)
     = Inl AttributeError
   \<and> get_cached_response ''k'' 1000
       (empty_cache\<lparr>files := [''k'' \<mapsto> Parsed (JObj [(''cached_at'', JStr ''yesterday''),
                                                       (''response'', JObj [])])]\<rparr>)
     = Inl TypeError
   \<and> get_cached_response ''k'' 1000 (empty_cache\<lparr>files := [''k'' \<mapsto> NotText]\<rparr>)
     = Inl UnicodeDecodeError
   \<and> get_cached_response ''k'' 1000 (empty_cache\<lparr>files := [''k'' \<mapsto> Unreadable]\<rparr>)
     = Inl OSError
   \<and> get_cached_response ''k'' 1000 (empty_cache\<lparr>files := [''k'' \<mapsto> NotJson]\<rparr>)
     = Inr (None, \<lparr>files = [''k'' \<mapsto> NotJson], CACHE_HITS = 0, CACHE_MISSES = 1\<rparr>)"
  by (simp add: get_cached_response_def empty_cache_def cache_miss_def)

section \<open>Rate and quota governor\<close>

text \<open>
  The module-level variables of the throttle, together with the wall clock that
  \<^verbatim>\<open>time.time()\<close> reads and the total time spent in \<^verbatim>\<open>time.sleep\<close>. A sleep of \<open>d\<close>
  seconds advances the clock by \<open>d\<close>.
\<close>

record throttle =
  API_CALLS_MADE :: int
  DAILY_CALLS_MADE :: int
  QUOTA_EXCEEDED :: bool
  LAST_CALL_TIME :: rat
  DAILY_RESET_TIME :: rat
  clock :: rat
  slept :: rat

definition MAX_CALLS_PER_DAY :: int where
  "MAX_CALLS_PER_DAY = 9000"

definition MAX_CALLS_PER_MINUTE :: int where
  "MAX_CALLS_PER_MINUTE = 2500"

definition py_sleep :: "rat \<Rightarrow> throttle \<Rightarrow> throttle" where
  "py_sleep d w = w\<lparr>clock := clock w + d, slept := slept w + d\<rparr>"

text \<open>\<^verbatim>\<open>throttle_api_call()\<close>: the returned flag and the state it leaves.\<close>

definition throttle_api_call :: "throttle \<Rightarrow> bool \<times> throttle" where
  "throttle_api_call w =
     (if QUOTA_EXCEEDED w then (False, w)
      else
        let current_time = clock w;
            w1 = (if 86400 < current_time - DAILY_RESET_TIME w
                  then w\<lparr>DAILY_CALLS_MADE := 0, DAILY_RESET_TIME := current_time\<rparr> else w)
        in if MAX_CALLS_PER_DAY \<le> DAILY_CALLS_MADE w1 then (False, w1\<lparr>QUOTA_EXCEEDED := True\<rparr>)
           else
             let w2 = (if 60 < current_time - LAST_CALL_TIME w1
                       then w1\<lparr>API_CALLS_MADE := 0, LAST_CALL_TIME := current_time\<rparr> else w1);
                 w3 = (if MAX_CALLS_PER_MINUTE \<le> API_CALLS_MADE w2 then
                         let wait_time = 60 - (current_time - LAST_CALL_TIME w2) in
                         if 0 < wait_time then
                           let w' = py_sleep wait_time w2
                           in w'\<lparr>API_CALLS_MADE := 0, LAST_CALL_TIME := clock w'\<rparr>
                         else w2
                       else w2);
                 w4 = py_sleep (1 / 10) w3
             in (True, w4\<lparr>API_CALLS_MADE := API_CALLS_MADE w4 + 1,
                         DAILY_CALLS_MADE := DAILY_CALLS_MADE w4 + 1\<rparr>))"

text \<open>
  The state when the module is loaded at clock reading \<open>c\<close>, and the events that change it:
  a call of \<open>throttle_api_call\<close>, time passing, and the explicit reset that the script's
  entry point performs (\<^verbatim>\<open>QUOTA_EXCEEDED = False\<close>, \<^verbatim>\<open>DAILY_CALLS_MADE = 0\<close>,
  \<^verbatim>\<open>DAILY_RESET_TIME = time.time()\<close>).
\<close>

definition initial :: "rat \<Rightarrow> throttle" where
  "initial c = \<lparr>API_CALLS_MADE = 0, DAILY_CALLS_MADE = 0, QUOTA_EXCEEDED = False,
                LAST_CALL_TIME = 0, DAILY_RESET_TIME = 0, clock = c, slept = 0\<rparr>"

datatype event = Call | Tick rat | Reset

fun step :: "event \<Rightarrow> throttle \<Rightarrow> throttle" where
  "step Call w = snd (throttle_api_call w)"
| "step (Tick d) w = w\<lparr>clock := clock w + d\<rparr>"
| "step Reset w = w\<lparr>QUOTA_EXCEEDED := False, DAILY_CALLS_MADE := 0, DAILY_RESET_TIME := clock w\<rparr>"

definition run :: "event list \<Rightarrow> throttle \<Rightarrow> throttle" where
  "run evs w = fold step evs w"

subsection \<open>Properties of the governor\<close>

lemma run_snoc: "run (evs @ [e]) w = step e (run evs w)"
  by (simp add: run_def)

lemma daily_step: "DAILY_CALLS_MADE w \<le> MAX_CALLS_PER_DAY
    \<Longrightarrow> DAILY_CALLS_MADE (step e w) \<le> MAX_CALLS_PER_DAY"
  by (cases e) (auto simp: throttle_api_call_def Let_def py_sleep_def MAX_CALLS_PER_DAY_def)

lemma daily_bounded: "DAILY_CALLS_MADE (run evs (initial c)) \<le> MAX_CALLS_PER_DAY"
proof (induction evs rule: rev_induct)
  case Nil
  then show ?case by (simp add: run_def initial_def MAX_CALLS_PER_DAY_def)
next
  case (snoc e evs)
  then show ?case by (simp add: run_snoc daily_step)
qed

lemma tripped_refuses: "QUOTA_EXCEEDED w \<Longrightarrow> throttle_api_call w = (False, w)"
  by (simp add: throttle_api_call_def)

lemma at_limit_trips:
  assumes "\<not> QUOTA_EXCEEDED w" "MAX_CALLS_PER_DAY \<le> DAILY_CALLS_MADE w"
    "clock w - DAILY_RESET_TIME w \<le> 86400"
  shows "throttle_api_call w = (False, w\<lparr>QUOTA_EXCEEDED := True\<rparr>)"
  using assms by (simp add: throttle_api_call_def Let_def)

lemma latched_step: "QUOTA_EXCEEDED w \<Longrightarrow> e \<noteq> Reset \<Longrightarrow> QUOTA_EXCEEDED (step e w)"
  by (cases e) (simp_all add: tripped_refuses)

lemma latched_run: "QUOTA_EXCEEDED w \<Longrightarrow> Reset \<notin> set evs \<Longrightarrow> QUOTA_EXCEEDED (run evs w)"
proof (induction evs rule: rev_induct)
  case Nil
  then show ?case by (simp add: run_def)
next
  case (snoc e evs)
  then show ?case by (auto simp: run_snoc intro: latched_step)
qed

text \<open>
  Back-to-back calls from a fresh module state at an epoch clock reading: after \<open>n\<close> calls,
  \<open>n\<close> up to the daily limit, all were admitted and the flag is not set. The per-minute
  branch never waits, since every admitted call sleeps a tenth of a second.
\<close>

definition epoch :: rat where
  "epoch = 1700000000"

definition admitted :: "nat \<Rightarrow> throttle \<Rightarrow> bool" where
  "admitted n w =
     (DAILY_CALLS_MADE w = int n \<and> \<not> QUOTA_EXCEEDED w
      \<and> (n = 0 \<and> w = initial epoch
         \<or> 0 < n \<and> DAILY_RESET_TIME w = epoch \<and> clock w = epoch + of_nat n / 10
           \<and> LAST_CALL_TIME w \<le> clock w
           \<and> of_int (API_CALLS_MADE w) \<le> 10 * (clock w - LAST_CALL_TIME w)))"

lemma admitted_step:
  assumes "admitted n w" "n < 9000"
  shows "admitted (Suc n) (step Call w)"
proof (cases "n = 0")
  case True
  with assms have "w = initial epoch" by (simp add: admitted_def)
  with True show ?thesis
    by (simp add: admitted_def initial_def epoch_def throttle_api_call_def Let_def py_sleep_def
        MAX_CALLS_PER_DAY_def MAX_CALLS_PER_MINUTE_def)
next
  case False
  with assms have a: "DAILY_CALLS_MADE w = int n" "\<not> QUOTA_EXCEEDED w"
    "DAILY_RESET_TIME w = epoch" "clock w = epoch + of_nat n / 10"
    "LAST_CALL_TIME w \<le> clock w"
    "of_int (API_CALLS_MADE w) \<le> 10 * (clock w - LAST_CALL_TIME w)"
    by (simp_all add: admitted_def)
  have n: "(of_nat n :: rat) / 10 \<le> 86400" using assms(2) by simp
  have nr: "\<not> 86400 < clock w - DAILY_RESET_TIME w" using a(3,4) n by simp
  have d: "\<not> MAX_CALLS_PER_DAY \<le> DAILY_CALLS_MADE w"
    using a(1) assms(2) by (simp add: MAX_CALLS_PER_DAY_def)
  show ?thesis
  proof (cases "60 < clock w - LAST_CALL_TIME w")
    case True
    then show ?thesis
      using a nr d
      by (simp add: admitted_def throttle_api_call_def Let_def py_sleep_def
          MAX_CALLS_PER_MINUTE_def field_simps)
  next
    case False
    then have "(of_int (API_CALLS_MADE w) :: rat) \<le> 600" using a(6) by simp
    then have "API_CALLS_MADE w \<le> 600" by linarith
    then have m: "\<not> MAX_CALLS_PER_MINUTE \<le> API_CALLS_MADE w"
      by (simp add: MAX_CALLS_PER_MINUTE_def)
    show ?thesis
      using a nr d m False
      by (simp add: admitted_def throttle_api_call_def Let_def py_sleep_def field_simps)
  qed
qed

lemma admitted_run: "n \<le> 9000 \<Longrightarrow> admitted n (run (replicate n Call) (initial epoch))"
proof (induction n)
  case 0
  then show ?case by (simp add: admitted_def run_def initial_def)
next
  case (Suc n)
  have "replicate (Suc n) Call = replicate n Call @ [Call]"
    by (simp add: replicate_append_same)
  then have "run (replicate (Suc n) Call) (initial epoch)
          = step Call (run (replicate n Call) (initial epoch))"
    by (simp only: run_snoc)
  moreover have "admitted (Suc n) (step Call (run (replicate n Call) (initial epoch)))"
    using Suc by (intro admitted_step) simp_all
  ultimately show ?case by simp
qed

text \<open>
  Claim C5 as stated fails in the state right after the admission that brings the daily
  counter to the limit: the counter has reached \<open>MAX_CALLS_PER_DAY\<close> and the flag is not
  set; it is the next call that sets it.
\<close>

theorem breaker_unset_at_limit_counterexample:
  "MAX_CALLS_PER_DAY \<le> DAILY_CALLS_MADE (run (replicate 9000 Call) (initial epoch))
   \<and> \<not> QUOTA_EXCEEDED (run (replicate 9000 Call) (initial epoch))"
  using admitted_run [of 9000] by (simp add: admitted_def MAX_CALLS_PER_DAY_def)

text \<open>
  Claim C5, as the code has it. In every state reached from the module's initial state
  by calls, passing time and resets, the daily counter is at most the daily limit. A call
  that finds the counter at the limit, no more than 24 hours after the last daily reset,
  sets the breaker flag and returns false, without sleeping and without changing a counter.
  In every state where the flag is set, \<open>throttle_api_call\<close> returns false and leaves the
  whole state (counters, clock, time slept) as it is, and the flag stays set over any
  sequence of calls and passing time that contains no explicit reset.
\<close>

theorem breaker_lazy_and_latched:
  "DAILY_CALLS_MADE (run evs (initial c)) \<le> MAX_CALLS_PER_DAY
   \<and> (\<not> QUOTA_EXCEEDED w \<and> MAX_CALLS_PER_DAY \<le> DAILY_CALLS_MADE w
        \<and> clock w - DAILY_RESET_TIME w \<le> 86400
      \<longrightarrow> throttle_api_call w = (False, w\<lparr>QUOTA_EXCEEDED := True\<rparr>))
   \<and> (QUOTA_EXCEEDED w' \<longrightarrow> throttle_api_call w' = (False, w'))
   \<and> (QUOTA_EXCEEDED w' \<and> Reset \<notin> set evs' \<longrightarrow> QUOTA_EXCEEDED (run evs' w'))"
  using daily_bounded at_limit_trips tripped_refuses latched_run by blast

definition at_limit :: throttle where
  "at_limit = run (replicate 9000 Call) (initial epoch)"

theorem breaker_lazy_and_latched_witness:
  "\<not> QUOTA_EXCEEDED at_limit \<and> MAX_CALLS_PER_DAY \<le> DAILY_CALLS_MADE at_limit
   \<and> clock at_limit - DAILY_RESET_TIME at_limit \<le> 86400
   \<and> throttle_api_call at_limit = (False, at_limit\<lparr>QUOTA_EXCEEDED := True\<rparr>)
   \<and> QUOTA_EXCEEDED (at_limit\<lparr>QUOTA_EXCEEDED := True\<rparr>)
   \<and> throttle_api_call (at_limit\<lparr>QUOTA_EXCEEDED := True\<rparr>)
       = (False, at_limit\<lparr>QUOTA_EXCEEDED := True\<rparr>)
   \<and> Reset \<notin> set [Call, Tick 100000, Call]
   \<and> QUOTA_EXCEEDED (run [Call, Tick 100000, Call] (at_limit\<lparr>QUOTA_EXCEEDED := True\<rparr>))
   \<and> DAILY_CALLS_MADE (run [Call, Reset, Call] (initial epoch)) \<le> MAX_CALLS_PER_DAY"
proof -
  have a: "admitted 9000 at_limit" unfolding at_limit_def by (rule admitted_run) simp
  then have 1: "\<not> QUOTA_EXCEEDED at_limit" and 2: "MAX_CALLS_PER_DAY \<le> DAILY_CALLS_MADE at_limit"
    and 3: "clock at_limit - DAILY_RESET_TIME at_limit \<le> 86400"
    by (simp_all add: admitted_def MAX_CALLS_PER_DAY_def)
  have 4: "QUOTA_EXCEEDED (at_limit\<lparr>QUOTA_EXCEEDED := True\<rparr>)" by simp
  have 5: "Reset \<notin> set [Call, Tick 100000, Call]" by simp
  from breaker_lazy_and_latched [of "[Call, Reset, Call]" epoch at_limit
         "at_limit\<lparr>QUOTA_EXCEEDED := True\<rparr>" "[Call, Tick 100000, Call]"] 1 2 3 4 5
  show ?thesis by blast
qed

section \<open>A gatherer sub-call: resolving a channel id\<close>

text \<open>
  The remote API is its answer to the \<open>n\<close>-th request sent: a response document or an
  \<^verbatim>\<open>HttpError\<close> with its status and whether its text mentions \<^verbatim>\<open>quotaExceeded\<close>. The
  environment also fixes the value that \<^verbatim>\<open>random.uniform(30, 60)\<close> draws after the
  \<open>n\<close>-th request and what happens to the cache file written after it.
\<close>

datatype http_error = HttpError (status: int) (mentions_quota: bool)

datatype api_reply = Reply "(string \<times> json) list" | Failure http_error

record remote_env =
  reply :: "nat \<Rightarrow> api_reply"
  backoff :: "nat \<Rightarrow> rat"
  disk :: "nat \<Rightarrow> write_outcome"

record system =
  cache_of :: cache
  throttle_of :: throttle
  requests :: nat

text \<open>\<^verbatim>\<open>handle_api_error(error, operation)\<close>, with the drawn waiting time.\<close>

definition handle_api_error :: "http_error \<Rightarrow> rat \<Rightarrow> throttle \<Rightarrow> string option \<times> throttle" where
  "handle_api_error error wait_time w =
     (if status error = 403 \<and> mentions_quota error then (None, w\<lparr>QUOTA_EXCEEDED := True\<rparr>)
      else if status error = 429 then (Some ''retry'', py_sleep wait_time w)
      else (None, w))"

fun json_truthy :: "json \<Rightarrow> bool" where
  "json_truthy JNull = False"
| "json_truthy (JBool b) = b"
| "json_truthy (JNum q) = (q \<noteq> 0)"
| "json_truthy (JStr s) = (s \<noteq> [])"
| "json_truthy (JList xs) = (xs \<noteq> [])"
| "json_truthy (JObj kvs) = (kvs \<noteq> [])"

text \<open>\<^verbatim>\<open>x[k]\<close> for a string key and \<^verbatim>\<open>x[0]\<close>.\<close>

fun json_item :: "json \<Rightarrow> string \<Rightarrow> py_error + json" where
  "json_item (JObj kvs) k = (case map_of kvs k of None \<Rightarrow> Inl KeyError | Some v \<Rightarrow> Inr v)"
| "json_item j k = Inl TypeError"

fun json_first :: "json \<Rightarrow> py_error + json" where
  "json_first (JList []) = Inl IndexError"
| "json_first (JList (x # xs)) = Inr x"
| "json_first (JStr []) = Inl IndexError"
| "json_first (JStr (c # cs)) = Inr (JStr [c])"
| "json_first (JObj kvs) = Inl KeyError"
| "json_first j = Inl TypeError"

text \<open>
  \<^verbatim>\<open>items = res.get("items", [])\<close> and
  \<^verbatim>\<open>items[0]["snippet"]["channelId"] if items else None\<close>.
\<close>

definition first_channel_id :: "json \<Rightarrow> py_error + json option" where
  "first_channel_id res =
     (case json_get res ''items'' (JList []) of
        Inl e \<Rightarrow> Inl e
      | Inr items \<Rightarrow>
          if json_truthy items then
            (case json_first items of
               Inl e \<Rightarrow> Inl e
             | Inr item \<Rightarrow>
                 (case json_item item ''snippet'' of
                    Inl e \<Rightarrow> Inl e
                  | Inr snippet \<Rightarrow>
                      (case json_item snippet ''channelId'' of
                         Inl e \<Rightarrow> Inl e
                       | Inr cid \<Rightarrow> Inr (py_value cid))))
          else Inr None)"

definition search_channel_params :: "string \<Rightarrow> params" where
  "search_channel_params channel_name =
     [(''q'', ParamStr channel_name), (''type'', ParamStr ''channel''),
      (''part'', ParamStr ''snippet''), (''maxResults'', ParamInt 1)]"

text \<open>The cached response when \<^verbatim>\<open>if cached_response:\<close> holds.\<close>

definition usable :: "json option \<Rightarrow> json option" where
  "usable cached_response =
     (case cached_response of
        None \<Rightarrow> None
      | Some res \<Rightarrow> if json_truthy res then Some res else None)"

text \<open>
  \<^verbatim>\<open>resolve_channel_id(youtube, channel_name)\<close>. On an \<^verbatim>\<open>HttpError\<close> for which
  \<open>handle_api_error\<close> answers \<^verbatim>\<open>"retry"\<close> the function calls itself. The first argument is
  the number of nested calls the interpreter still allows; when it is used up the call
  raises \<^verbatim>\<open>RecursionError\<close>.
\<close>

fun resolve_channel_id ::
  "nat \<Rightarrow> (string \<Rightarrow> 128 word) \<Rightarrow> remote_env \<Rightarrow> string \<Rightarrow> system
     \<Rightarrow> py_error + json option \<times> system" where
  "resolve_channel_id 0 md5 env channel_name s = Inl RecursionError"
| "resolve_channel_id (Suc depth) md5 env channel_name s =
     (let cache_key = get_cache_key md5 ''search'' (search_channel_params channel_name) in
      case get_cached_response cache_key (clock (throttle_of s)) (cache_of s) of
        Inl e \<Rightarrow> Inl e
      | Inr (cached_response, c1) \<Rightarrow>
          let s1 = s\<lparr>cache_of := c1\<rparr> in
          (case usable cached_response of
             Some res \<Rightarrow>
               (case first_channel_id res of Inl e \<Rightarrow> Inl e | Inr r \<Rightarrow> Inr (r, s1))
           | None \<Rightarrow>
               (case throttle_api_call (throttle_of s1) of
                  (False, t1) \<Rightarrow> Inr (None, s1\<lparr>throttle_of := t1\<rparr>)
                | (True, t1) \<Rightarrow>
                    let n = requests s1;
                        s2 = s1\<lparr>throttle_of := t1, requests := Suc n\<rparr>
                    in (case reply env n of
                          Reply res \<Rightarrow>
                            let s3 = s2\<lparr>cache_of :=
                                   cache_response cache_key (clock t1) res (disk env n) (cache_of s2)\<rparr>
                            in (case first_channel_id (JObj res) of
                                  Inl e \<Rightarrow> Inl e
                                | Inr r \<Rightarrow> Inr (r, s3))
                        | Failure error \<Rightarrow>
                            (case handle_api_error error (backoff env n) t1 of
                               (Some result, t2) \<Rightarrow>
                                 if result = ''retry''
                                 then resolve_channel_id depth md5 env channel_name
                                        (s2\<lparr>throttle_of := t2\<rparr>)
                                 else Inr (None, s2\<lparr>throttle_of := t2\<rparr>)
                             | (None, t2) \<Rightarrow> Inr (None, s2\<lparr>throttle_of := t2\<rparr>))))))"

text \<open>
  A remote API that answers the first three requests with status 429 and the fourth with a
  search result; every backoff drawn is 45 seconds.
\<close>

definition throttled_thrice :: remote_env where
  "throttled_thrice =
     \<lparr>reply = (\<lambda>n. if n < 3 then Failure (HttpError 429 False) else Reply search_response),
      backoff = (\<lambda>n. 45), disk = (\<lambda>n. Written)\<rparr>"

definition fresh_system :: system where
  "fresh_system = \<lparr>cache_of = empty_cache, throttle_of = initial epoch, requests = 0\<rparr>"

text \<open>What a run of the sub-call shows: the returned value, how many requests were sent, and
  how long the process slept.\<close>

definition outcome :: "py_error + json option \<times> system \<Rightarrow> py_error + json option \<times> nat \<times> rat" where
  "outcome r =
     (case r of Inl e \<Rightarrow> Inl e | Inr (v, s) \<Rightarrow> Inr (v, requests s, slept (throttle_of s)))"

subsection \<open>Retries of the sub-call\<close>

text \<open>
  Claim C6 fails on the code: the retry is a recursive call of the whole function, which
  retries again on the next 429. Against a remote API that answers 429 three times in a row,
  \<open>resolve_channel_id\<close> sends four requests (three retries), sleeping through three backoffs,
  and returns the channel id of the fourth answer.
\<close>

theorem resolve_channel_id_retries_thrice:
  "\<forall>md5. outcome (resolve_channel_id 1000 md5 throttled_thrice ''Some Channel'' fresh_system)
     = Inr (Some (JStr ''UC123''), 4, 3 * 45 + 4 / 10)"
proof
  fix md5 :: "string \<Rightarrow> 128 word"
  show "outcome (resolve_channel_id 1000 md5 throttled_thrice ''Some Channel'' fresh_system)
     = Inr (Some (JStr ''UC123''), 4, 3 * 45 + 4 / 10)"
    by code_simp
qed

end
